theory Spec2Isabelle
  imports Main "HOL-Library.Word"
begin

section \<open>The whisper JNI bridge (whisper-jni.cpp)\<close>

text \<open>
  The bridge has three entry points: \<open>initContext\<close>, \<open>transcribe\<close> and
  \<open>freeContext\<close>. Each of them is a straight sequence of calls into the JNI
  environment, the Android log and the whisper engine. The embedding threads a world
  through every call: the state of the engine, and the trace of every call made so far,
  oldest first. A property such as "the engine is not invoked" or "the array is released
  exactly once" is then a property of the trace.
\<close>

subsection \<open>Data\<close>

text \<open>
  A \<open>jlong\<close> is a 64-bit integer. A \<open>struct whisper_context *\<close> is modelled as a
  64-bit address as well (the arm64 ABI), so that the two casts between \<open>jlong\<close> and
  the pointer are the identity; \<open>nullptr\<close> is the address 0. A \<open>jfloat\<close> is kept as
  its 32-bit pattern: the bridge never computes with a sample.
  A C string (\<open>const char *\<close>) is modelled by its contents, the bytes before the
  terminating NUL; a pointer that may be null is an \<open>option\<close>.
\<close>

type_synonym jlong = "64 word"
type_synonym whisper_context_ptr = "64 word"
type_synonym jfloat = "32 word"

definition nullptr :: whisper_context_ptr where
  "nullptr = 0"

datatype whisper_sampling_strategy = WHISPER_SAMPLING_GREEDY | WHISPER_SAMPLING_BEAM_SEARCH

text \<open>
  \<open>struct whisper_full_params\<close> is declared by the engine's header. The fields the
  bridge writes are named; \<open>strategy\<close> is the field that holds the sampling strategy; every
  other field of the struct is kept in \<open>other_fields\<close>.
\<close>

record 'r whisper_full_params =
  strategy :: whisper_sampling_strategy
  n_threads :: int
  no_context :: bool
  single_segment :: bool
  translate :: bool
  print_special :: bool
  print_progress :: bool
  print_realtime :: bool
  print_timestamps :: bool
  language :: string
  other_fields :: 'r

text \<open>
  The engine is not part of the bridge: its seven functions are parameters.
  \<open>'e\<close> is the state of the engine (the loaded contexts and their last results),
  \<open>'cp\<close> is \<open>struct whisper_context_params\<close>. The constructor, the inference entry
  point and the free routine change the engine's state; the two result accessors read it.
\<close>

record ('e, 'cp, 'r) engine =
  whisper_context_default_params :: 'cp
  whisper_init_from_file_with_params :: "string \<Rightarrow> 'cp \<Rightarrow> 'e \<Rightarrow> whisper_context_ptr \<times> 'e"
  whisper_full_default_params :: "whisper_sampling_strategy \<Rightarrow> 'r whisper_full_params"
  whisper_full ::
    "whisper_context_ptr \<Rightarrow> 'r whisper_full_params \<Rightarrow> jfloat list \<Rightarrow> int \<Rightarrow> 'e \<Rightarrow> int \<times> 'e"
  whisper_full_n_segments :: "whisper_context_ptr \<Rightarrow> 'e \<Rightarrow> int"
  whisper_full_get_segment_text :: "whisper_context_ptr \<Rightarrow> int \<Rightarrow> 'e \<Rightarrow> string option"
  whisper_free :: "whisper_context_ptr \<Rightarrow> 'e \<Rightarrow> 'e"

text \<open>
  The arguments of a log line. The second argument of the "Transcribing" line is the
  float quotient \<open>numSamples / 16000.0f\<close>; it is kept as the pair of its operands.
\<close>

datatype log_arg = ArgStr string | ArgInt int | ArgQuot int int

text \<open>One event for every call that leaves the bridge.\<close>

datatype ('cp, 'r) event =
    GetStringUTFChars string
  | ReleaseStringUTFChars string string
  | GetArrayLength "jfloat list"
  | GetFloatArrayElements "jfloat list"
  | ReleaseFloatArrayElements "jfloat list" "jfloat list" int
  | NewStringUTF string
  | LOGI string "log_arg list"
  | LOGE string "log_arg list"
  | Call_whisper_context_default_params
  | Call_whisper_init_from_file_with_params string 'cp
  | Call_whisper_full_default_params whisper_sampling_strategy
  | Call_whisper_full whisper_context_ptr "'r whisper_full_params" "jfloat list" int
  | Call_whisper_full_n_segments whisper_context_ptr
  | Call_whisper_full_get_segment_text whisper_context_ptr int
  | Call_whisper_free whisper_context_ptr

record ('e, 'cp, 'r) world =
  engine_state :: 'e
  trace :: "('cp, 'r) event list"

definition emit :: "('cp, 'r) event \<Rightarrow> ('e, 'cp, 'r) world \<Rightarrow> ('e, 'cp, 'r) world" where
  "emit ev w = w\<lparr>trace := trace w @ [ev]\<rparr>"

subsection \<open>The JNI environment and the log\<close>

text \<open>
  \<open>GetStringUTFChars\<close> hands out a native copy of the characters of a Java string,
  \<open>GetArrayLength\<close> the length of a Java array (which always fits a \<open>jsize\<close>),
  \<open>GetFloatArrayElements\<close> the elements of the array.
\<close>

definition env_GetStringUTFChars ::
  "string \<Rightarrow> ('e, 'cp, 'r) world \<Rightarrow> string \<times> ('e, 'cp, 'r) world" where
  "env_GetStringUTFChars jstr w = (jstr, emit (GetStringUTFChars jstr) w)"

definition env_ReleaseStringUTFChars ::
  "string \<Rightarrow> string \<Rightarrow> ('e, 'cp, 'r) world \<Rightarrow> ('e, 'cp, 'r) world" where
  "env_ReleaseStringUTFChars jstr chars w = emit (ReleaseStringUTFChars jstr chars) w"

definition env_GetArrayLength ::
  "jfloat list \<Rightarrow> ('e, 'cp, 'r) world \<Rightarrow> int \<times> ('e, 'cp, 'r) world" where
  "env_GetArrayLength arr w = (int (length arr), emit (GetArrayLength arr) w)"

definition env_GetFloatArrayElements ::
  "jfloat list \<Rightarrow> ('e, 'cp, 'r) world \<Rightarrow> jfloat list \<times> ('e, 'cp, 'r) world" where
  "env_GetFloatArrayElements arr w = (arr, emit (GetFloatArrayElements arr) w)"

definition env_ReleaseFloatArrayElements ::
  "jfloat list \<Rightarrow> jfloat list \<Rightarrow> int \<Rightarrow> ('e, 'cp, 'r) world \<Rightarrow> ('e, 'cp, 'r) world" where
  "env_ReleaseFloatArrayElements arr elems mode w =
     emit (ReleaseFloatArrayElements arr elems mode) w"

definition env_NewStringUTF ::
  "string \<Rightarrow> ('e, 'cp, 'r) world \<Rightarrow> string \<times> ('e, 'cp, 'r) world" where
  "env_NewStringUTF bytes w = (bytes, emit (NewStringUTF bytes) w)"

definition logi :: "string \<Rightarrow> log_arg list \<Rightarrow> ('e, 'cp, 'r) world \<Rightarrow> ('e, 'cp, 'r) world" where
  "logi fmt args w = emit (LOGI fmt args) w"

definition loge :: "string \<Rightarrow> log_arg list \<Rightarrow> ('e, 'cp, 'r) world \<Rightarrow> ('e, 'cp, 'r) world" where
  "loge fmt args w = emit (LOGE fmt args) w"

subsection \<open>Calls into the engine\<close>

definition call_whisper_context_default_params ::
  "('e, 'cp, 'r) engine \<Rightarrow> ('e, 'cp, 'r) world \<Rightarrow> 'cp \<times> ('e, 'cp, 'r) world" where
  "call_whisper_context_default_params eng w =
     (whisper_context_default_params eng, emit Call_whisper_context_default_params w)"

definition call_whisper_init_from_file_with_params ::
  "('e, 'cp, 'r) engine \<Rightarrow> string \<Rightarrow> 'cp \<Rightarrow> ('e, 'cp, 'r) world
     \<Rightarrow> whisper_context_ptr \<times> ('e, 'cp, 'r) world" where
  "call_whisper_init_from_file_with_params eng path cparams w =
     (let (ctx, es) = whisper_init_from_file_with_params eng path cparams (engine_state w)
      in (ctx, emit (Call_whisper_init_from_file_with_params path cparams)
                 (w\<lparr>engine_state := es\<rparr>)))"

definition call_whisper_full_default_params ::
  "('e, 'cp, 'r) engine \<Rightarrow> whisper_sampling_strategy \<Rightarrow> ('e, 'cp, 'r) world
     \<Rightarrow> 'r whisper_full_params \<times> ('e, 'cp, 'r) world" where
  "call_whisper_full_default_params eng s w =
     (whisper_full_default_params eng s, emit (Call_whisper_full_default_params s) w)"

definition call_whisper_full ::
  "('e, 'cp, 'r) engine \<Rightarrow> whisper_context_ptr \<Rightarrow> 'r whisper_full_params \<Rightarrow> jfloat list \<Rightarrow> int
     \<Rightarrow> ('e, 'cp, 'r) world \<Rightarrow> int \<times> ('e, 'cp, 'r) world" where
  "call_whisper_full eng ctx params samples n w =
     (let (status, es) = whisper_full eng ctx params samples n (engine_state w)
      in (status, emit (Call_whisper_full ctx params samples n) (w\<lparr>engine_state := es\<rparr>)))"

definition call_whisper_full_n_segments ::
  "('e, 'cp, 'r) engine \<Rightarrow> whisper_context_ptr \<Rightarrow> ('e, 'cp, 'r) world
     \<Rightarrow> int \<times> ('e, 'cp, 'r) world" where
  "call_whisper_full_n_segments eng ctx w =
     (whisper_full_n_segments eng ctx (engine_state w),
      emit (Call_whisper_full_n_segments ctx) w)"

definition call_whisper_full_get_segment_text ::
  "('e, 'cp, 'r) engine \<Rightarrow> whisper_context_ptr \<Rightarrow> int \<Rightarrow> ('e, 'cp, 'r) world
     \<Rightarrow> string option \<times> ('e, 'cp, 'r) world" where
  "call_whisper_full_get_segment_text eng ctx i w =
     (whisper_full_get_segment_text eng ctx i (engine_state w),
      emit (Call_whisper_full_get_segment_text ctx i) w)"

definition call_whisper_free ::
  "('e, 'cp, 'r) engine \<Rightarrow> whisper_context_ptr \<Rightarrow> ('e, 'cp, 'r) world \<Rightarrow> ('e, 'cp, 'r) world" where
  "call_whisper_free eng ctx w =
     emit (Call_whisper_free ctx) (w\<lparr>engine_state := whisper_free eng ctx (engine_state w)\<rparr>)"

subsection \<open>The three members of std::string that the bridge uses\<close>

text \<open>
  \<open>find_first_not_of\<close> and \<open>find_last_not_of\<close> return the position of the first
  (the last) character of the string that is not one of \<open>cs\<close>, or \<open>npos\<close>, which is
  \<open>None\<close> here. \<open>substr pos n\<close> is the at most \<open>n\<close> characters from position
  \<open>pos\<close> on.
\<close>

fun find_first_not_of_at :: "nat \<Rightarrow> string \<Rightarrow> string \<Rightarrow> nat option" where
  "find_first_not_of_at i [] cs = None"
| "find_first_not_of_at i (c # s) cs =
     (if c \<notin> set cs then Some i else find_first_not_of_at (Suc i) s cs)"

definition find_first_not_of :: "string \<Rightarrow> string \<Rightarrow> nat option" where
  "find_first_not_of s cs = find_first_not_of_at 0 s cs"

fun find_last_not_of_at :: "nat \<Rightarrow> string \<Rightarrow> string \<Rightarrow> nat option" where
  "find_last_not_of_at i [] cs = None"
| "find_last_not_of_at i (c # s) cs =
     (case find_last_not_of_at (Suc i) s cs of
        Some j \<Rightarrow> Some j
      | None \<Rightarrow> if c \<notin> set cs then Some i else None)"

definition find_last_not_of :: "string \<Rightarrow> string \<Rightarrow> nat option" where
  "find_last_not_of s cs = find_last_not_of_at 0 s cs"

definition substr :: "string \<Rightarrow> nat \<Rightarrow> nat \<Rightarrow> string" where
  "substr s pos n = take n (drop pos s)"

subsection \<open>initContext\<close>

definition Java_it_shek_dictator_app_WhisperLib_initContext ::
  "('e, 'cp, 'r) engine \<Rightarrow> string \<Rightarrow> ('e, 'cp, 'r) world \<Rightarrow> jlong \<times> ('e, 'cp, 'r) world" where
  "Java_it_shek_dictator_app_WhisperLib_initContext eng modelPath w0 =
     (let (path, w1) = env_GetStringUTFChars modelPath w0;
          w2 = logi ''Loading model from: %s'' [ArgStr path] w1;
          (cparams, w3) = call_whisper_context_default_params eng w2;
          (ctx, w4) = call_whisper_init_from_file_with_params eng path cparams w3;
          w5 = env_ReleaseStringUTFChars modelPath path w4
      in if ctx = nullptr then (0, loge ''Failed to load model'' [] w5)
         else (ctx, logi ''Model loaded successfully'' [] w5))"

subsection \<open>transcribe\<close>

text \<open>The characters of the literal \<open>" \t\n\r"\<close>.\<close>

definition whitespace :: string where
  "whitespace = [CHR '' '', CHR 0x09, CHR 0x0A, CHR 0x0D]"

text \<open>The nine assignments to the fields of \<open>params\<close>.\<close>

definition set_params :: "'r whisper_full_params \<Rightarrow> 'r whisper_full_params" where
  "set_params params =
     params\<lparr>print_progress := False, print_special := False, print_timestamps := False,
            print_realtime := False, translate := False, language := ''en'',
            n_threads := 4, no_context := True, single_segment := False\<rparr>"

text \<open>The loop over the segments, from \<open>i\<close> up to \<open>nSegments\<close>.\<close>

function segments_loop ::
  "('e, 'cp, 'r) engine \<Rightarrow> whisper_context_ptr \<Rightarrow> int \<Rightarrow> int \<Rightarrow> string \<Rightarrow> ('e, 'cp, 'r) world
     \<Rightarrow> string \<times> ('e, 'cp, 'r) world" where
  "segments_loop eng ctx i nSegments text w =
     (if i < nSegments then
        (let (segText, w') = call_whisper_full_get_segment_text eng ctx i w
         in segments_loop eng ctx (i + 1) nSegments
              (case segText of Some s \<Rightarrow> text @ s | None \<Rightarrow> text) w')
      else (text, w))"
  by pat_completeness auto
termination
  by (relation "measure (\<lambda>(eng, ctx, i, nSegments, text, w). nat (nSegments - i))") auto

text \<open>
  The trimming block. \<open>end\<close> is computed before the test of \<open>start\<close>. Were \<open>end\<close>
  equal to \<open>npos\<close> while \<open>start\<close> is not, \<open>end - start + 1\<close> would wrap around to a
  count that exceeds the rest of the string, and \<open>substr\<close> would return all of it from
  \<open>start\<close> on; that branch is written out (and never taken, see
  \<open>find_last_not_of_some\<close>).
\<close>

definition trim :: "string \<Rightarrow> string" where
  "trim text =
     (let start = find_first_not_of text whitespace;
          end = find_last_not_of text whitespace
      in case start of
           Some s \<Rightarrow> (case end of
                        Some e \<Rightarrow> substr text s (e - s + 1)
                      | None \<Rightarrow> substr text s (length text))
         | None \<Rightarrow> '''')"

definition Java_it_shek_dictator_app_WhisperLib_transcribe ::
  "('e, 'cp, 'r) engine \<Rightarrow> jlong \<Rightarrow> jfloat list \<Rightarrow> ('e, 'cp, 'r) world
     \<Rightarrow> string \<times> ('e, 'cp, 'r) world" where
  "Java_it_shek_dictator_app_WhisperLib_transcribe eng contextPtr audioData w0 =
     (let ctx = contextPtr
      in if ctx = nullptr then env_NewStringUTF '''' w0
         else
           (let (numSamples, w1) = env_GetArrayLength audioData w0;
                (samples, w2) = env_GetFloatArrayElements audioData w1;
                w3 = logi ''Transcribing %d samples (%.1fs)''
                       [ArgInt numSamples, ArgQuot numSamples 16000] w2;
                (params0, w4) = call_whisper_full_default_params eng WHISPER_SAMPLING_GREEDY w3;
                params = set_params params0;
                (result, w5) = call_whisper_full eng ctx params samples numSamples w4;
                w6 = env_ReleaseFloatArrayElements audioData samples 0 w5
            in if result \<noteq> 0 then
                 env_NewStringUTF ''''
                   (loge ''Transcription failed with code %d'' [ArgInt result] w6)
               else
                 (let (nSegments, w7) = call_whisper_full_n_segments eng ctx w6;
                      (text, w8) = segments_loop eng ctx 0 nSegments '''' w7;
                      text' = trim text;
                      w9 = logi ''Transcription result: %s'' [ArgStr text'] w8
                  in env_NewStringUTF text' w9)))"

subsection \<open>freeContext\<close>

definition Java_it_shek_dictator_app_WhisperLib_freeContext ::
  "('e, 'cp, 'r) engine \<Rightarrow> jlong \<Rightarrow> ('e, 'cp, 'r) world \<Rightarrow> ('e, 'cp, 'r) world" where
  "Java_it_shek_dictator_app_WhisperLib_freeContext eng contextPtr w0 =
     (let ctx = contextPtr
      in if ctx \<noteq> nullptr then logi ''Context freed'' [] (call_whisper_free eng ctx w0)
         else w0)"


abbreviation "initContext \<equiv> Java_it_shek_dictator_app_WhisperLib_initContext"
abbreviation "transcribe \<equiv> Java_it_shek_dictator_app_WhisperLib_transcribe"
abbreviation "freeContext \<equiv> Java_it_shek_dictator_app_WhisperLib_freeContext"

subsection \<open>Reading a trace\<close>

text \<open>The events that are calls of an engine function.\<close>

fun is_engine_call :: "('cp, 'r) event \<Rightarrow> bool" where
  "is_engine_call Call_whisper_context_default_params = True"
| "is_engine_call (Call_whisper_init_from_file_with_params path cparams) = True"
| "is_engine_call (Call_whisper_full_default_params s) = True"
| "is_engine_call (Call_whisper_full ctx params samples n) = True"
| "is_engine_call (Call_whisper_full_n_segments ctx) = True"
| "is_engine_call (Call_whisper_full_get_segment_text ctx i) = True"
| "is_engine_call (Call_whisper_free ctx) = True"
| "is_engine_call ev = False"

text \<open>The arguments of every call of the inference entry point, in order.\<close>

fun whisper_full_calls ::
  "('cp, 'r) event list
     \<Rightarrow> (whisper_context_ptr \<times> 'r whisper_full_params \<times> jfloat list \<times> int) list" where
  "whisper_full_calls [] = []"
| "whisper_full_calls (Call_whisper_full ctx params samples n # evs) =
     (ctx, params, samples, n) # whisper_full_calls evs"
| "whisper_full_calls (ev # evs) = whisper_full_calls evs"

text \<open>The events that hold the native elements of the audio array.\<close>

fun uses_elements :: "('cp, 'r) event \<Rightarrow> bool" where
  "uses_elements (GetFloatArrayElements arr) = True"
| "uses_elements (ReleaseFloatArrayElements arr elems mode) = True"
| "uses_elements (Call_whisper_full ctx params samples n) = True"
| "uses_elements ev = False"

fun is_ReleaseStringUTFChars :: "('cp, 'r) event \<Rightarrow> bool" where
  "is_ReleaseStringUTFChars (ReleaseStringUTFChars jstr chars) = True"
| "is_ReleaseStringUTFChars ev = False"

fun is_log :: "('cp, 'r) event \<Rightarrow> bool" where
  "is_log (LOGI fmt args) = True"
| "is_log (LOGE fmt args) = True"
| "is_log ev = False"

text \<open>The events that a call added to the trace of the world \<open>w\<close> it started in.\<close>

definition new_events :: "('e, 'cp, 'r) world \<Rightarrow> ('e, 'cp, 'r) world \<Rightarrow> ('cp, 'r) event list" where
  "new_events w w' = drop (length (trace w)) (trace w')"

subsection \<open>The transcript as the specification words it\<close>

text \<open>
  The specification's transcript: the texts of the segments, those with an absent text
  left out, concatenated in order with no separator, then trimmed of leading and trailing
  ASCII whitespace (space, tab, newline, carriage return).
\<close>

definition is_ascii_whitespace :: "char \<Rightarrow> bool" where
  "is_ascii_whitespace c = (c = CHR '' '' \<or> c = CHR 0x09 \<or> c = CHR 0x0A \<or> c = CHR 0x0D)"

definition spec_trim :: "string \<Rightarrow> string" where
  "spec_trim s = rev (dropWhile is_ascii_whitespace (rev (dropWhile is_ascii_whitespace s)))"

definition present_text :: "string option \<Rightarrow> string" where
  "present_text t = (case t of Some s \<Rightarrow> s | None \<Rightarrow> [])"

definition spec_transcript :: "string option list \<Rightarrow> string" where
  "spec_transcript segs = spec_trim (concat (map present_text segs))"

text \<open>
  What the engine reports in the state \<open>es\<close>: the text of each of the segments
  \<open>0, \<dots>, n - 1\<close>, where \<open>n\<close> is the count it reports.
\<close>

definition reported_segments ::
  "('e, 'cp, 'r) engine \<Rightarrow> whisper_context_ptr \<Rightarrow> 'e \<Rightarrow> string option list" where
  "reported_segments eng ctx es =
     map (\<lambda>k. whisper_full_get_segment_text eng ctx k es)
       [0..whisper_full_n_segments eng ctx es - 1]"

subsection \<open>A small engine to run the bridge on\<close>

text \<open>
  The state of this engine is the list of segments of the last inference. It loads the
  one model \<open>ggml-base.en.bin\<close> at the address 4096. Inference fails with the code 7
  on an empty buffer, and reports the two segments \<open>" foo"\<close> and \<open>"bar "\<close> on a
  buffer of one sample, with a segment of absent text between them on a longer one.
  Its default parameters differ from the ones the bridge sets.
\<close>

definition demo_default_params :: "whisper_sampling_strategy \<Rightarrow> unit whisper_full_params" where
  "demo_default_params s =
     \<lparr>strategy = s, n_threads = 2, no_context = False, single_segment = True,
      translate = True, print_special = True, print_progress = True, print_realtime = True,
      print_timestamps = True, language = ''auto'', other_fields = ()\<rparr>"

definition demo_engine :: "(string option list, unit, unit) engine" where
  "demo_engine =
     \<lparr>whisper_context_default_params = (),
      whisper_init_from_file_with_params =
        (\<lambda>path cparams es. (if path = ''ggml-base.en.bin'' then 4096 else nullptr, es)),
      whisper_full_default_params = demo_default_params,
      whisper_full =
        (\<lambda>ctx params samples n es.
           if n = 0 then (7, es)
           else if n = 1 then (0, [Some '' foo'', Some ''bar ''])
           else (0, [Some '' foo'', None, Some ''bar ''])),
      whisper_full_n_segments = (\<lambda>ctx es. int (length es)),
      whisper_full_get_segment_text =
        (\<lambda>ctx i es. if 0 \<le> i \<and> i < int (length es) then es ! nat i else None),
      whisper_free = (\<lambda>ctx es. [])\<rparr>"

definition demo_world :: "(string option list, unit, unit) world" where
  "demo_world = \<lparr>engine_state = [], trace = []\<rparr>"

subsection \<open>What the engine answers to an inference\<close>


subsection \<open>An engine that carries state from one inference to the next\<close>



section \<open>Properties of the string operations\<close>

lemma find_first_not_of_at_eq:
  "find_first_not_of_at i s cs =
     (if \<forall>c\<in>set s. c \<in> set cs then None
      else Some (i + length (takeWhile (\<lambda>c. c \<in> set cs) s)))"
  by (induction s arbitrary: i) auto

lemma find_last_not_of_at_eq:
  "find_last_not_of_at i s cs =
     (if \<forall>c\<in>set s. c \<in> set cs then None
      else Some (i + length s - 1 - length (takeWhile (\<lambda>c. c \<in> set cs) (rev s))))"
proof (induction s arbitrary: i)
  case Nil
  show ?case by simp
next
  case (Cons c s)
  show ?case
  proof (cases "\<forall>c\<in>set s. c \<in> set cs")
    case True
    then have "takeWhile (\<lambda>c. c \<in> set cs) (rev s @ [c]) = rev s @ takeWhile (\<lambda>c. c \<in> set cs) [c]"
      by (intro takeWhile_append2) simp
    with True show ?thesis by (simp add: Cons.IH)
  next
    case False
    then obtain x where x: "x \<in> set (rev s)" "\<not> x \<in> set cs" by auto
    then have tw: "takeWhile (\<lambda>c. c \<in> set cs) (rev s @ [c]) = takeWhile (\<lambda>c. c \<in> set cs) (rev s)"
      by (rule takeWhile_append1)
    have "length (takeWhile (\<lambda>c. c \<in> set cs) (rev s)) \<le> length s"
      using length_takeWhile_le [of "\<lambda>c. c \<in> set cs" "rev s"] by simp
    with False tw show ?thesis by (auto simp: Cons.IH)
  qed
qed

lemma whitespace_iff: "c \<in> set whitespace \<longleftrightarrow> is_ascii_whitespace c"
  by (auto simp: whitespace_def is_ascii_whitespace_def)

lemma rev_dropWhile_rev:
  "rev (dropWhile P (rev ys)) = take (length ys - length (takeWhile P (rev ys))) ys"
  by (simp add: dropWhile_eq_drop rev_drop)

text \<open>
  When some character of the string does not satisfy \<open>P\<close>, the run of \<open>P\<close> at the
  back of the string lies in what is left after the run at the front, and the two runs
  do not meet.
\<close>

lemma back_run:
  assumes "\<not> (\<forall>c\<in>set text. P c)"
  shows "takeWhile P (rev text) = takeWhile P (rev (dropWhile P text))"
proof -
  define ys where "ys = dropWhile P text"
  from assms have "ys \<noteq> []" by (auto simp: ys_def)
  then have y: "hd ys \<in> set (rev ys)" "\<not> P (hd ys)"
    by (simp_all add: ys_def hd_dropWhile)
  have "rev text = rev ys @ rev (takeWhile P text)"
    unfolding ys_def using rev_append [of "takeWhile P text" "dropWhile P text"] by simp
  then show ?thesis
    using takeWhile_append1 [of "hd ys" "rev ys" P "rev (takeWhile P text)"] y
    by (simp add: ys_def)
qed

lemma runs_apart:
  assumes "\<not> (\<forall>c\<in>set text. P c)"
  shows "length (takeWhile P text) + length (takeWhile P (rev text)) < length text"
proof -
  define ys where "ys = dropWhile P text"
  from assms have "ys \<noteq> []" by (auto simp: ys_def)
  then have "hd ys \<in> set (rev ys)" "\<not> P (hd ys)"
    by (simp_all add: ys_def hd_dropWhile)
  then have "takeWhile P (rev ys) \<noteq> rev ys"
    by auto
  moreover have "takeWhile P (rev ys) = take (length (takeWhile P (rev ys))) (rev ys)"
    by (rule takeWhile_eq_take)
  ultimately have "length (takeWhile P (rev ys)) \<noteq> length ys" by auto
  moreover have "length (takeWhile P (rev ys)) \<le> length ys"
    using length_takeWhile_le [of P "rev ys"] by simp
  moreover have "length text = length (takeWhile P text) + length ys"
    using length_append [of "takeWhile P text" "dropWhile P text"] by (simp add: ys_def)
  ultimately show ?thesis
    by (simp add: back_run [OF assms] ys_def)
qed

text \<open>
  Where \<open>find_first_not_of\<close> finds a position, it lies inside the string (so
  \<open>substr\<close> is called in range), and \<open>find_last_not_of\<close> finds a position that is
  not before it (so \<open>end - start + 1\<close> does not wrap around).
\<close>

lemma find_last_not_of_some:
  assumes "find_first_not_of text cs = Some s"
  shows "\<exists>e. find_last_not_of text cs = Some e \<and> s \<le> e \<and> e < length text"
proof -
  from assms have some: "\<not> (\<forall>c\<in>set text. c \<in> set cs)"
    and s: "s = length (takeWhile (\<lambda>c. c \<in> set cs) text)"
    by (auto simp: find_first_not_of_def find_first_not_of_at_eq split: if_splits)
  from some have "find_last_not_of text cs =
      Some (length text - 1 - length (takeWhile (\<lambda>c. c \<in> set cs) (rev text)))"
    by (auto simp: find_last_not_of_def find_last_not_of_at_eq)
  with runs_apart [OF some] s show ?thesis by (simp, arith)
qed

text \<open>The trimming block of the code computes the specification's trimming.\<close>

lemma trim_eq_spec_trim: "trim text = spec_trim text"
proof (cases "\<forall>c\<in>set text. is_ascii_whitespace c")
  case True
  then have "spec_trim text = []"
    by (auto simp: spec_trim_def dest: set_dropWhileD)
  with True show ?thesis
    by (simp add: trim_def find_first_not_of_def find_last_not_of_def
        find_first_not_of_at_eq find_last_not_of_at_eq whitespace_iff)
next
  case False
  define P where "P = is_ascii_whitespace"
  define ys where "ys = dropWhile P text"
  define s where "s = length (takeWhile P text)"
  define t where "t = length (takeWhile P (rev text))"
  from False have some: "\<not> (\<forall>c\<in>set text. P c)" by (simp add: P_def)
  have t_ys: "t = length (takeWhile P (rev ys))"
    by (simp add: t_def ys_def back_run [OF some])
  have "length text = s + length ys"
    using length_append [of "takeWhile P text" "dropWhile P text"] by (simp add: s_def ys_def)
  with runs_apart [OF some] have cnt: "length text - 1 - t - s + 1 = length ys - t"
    by (simp add: s_def t_def)
  have first: "find_first_not_of text whitespace = Some s"
    using False
    by (auto simp: find_first_not_of_def find_first_not_of_at_eq whitespace_iff P_def s_def)
  have last: "find_last_not_of text whitespace = Some (length text - 1 - t)"
    using False
    by (auto simp: find_last_not_of_def find_last_not_of_at_eq whitespace_iff P_def t_def)
  have "trim text = take (length text - 1 - t - s + 1) (drop s text)"
    by (simp only: trim_def first last Let_def option.case substr_def)
  also have "drop s text = ys"
    by (simp add: s_def ys_def dropWhile_eq_drop)
  also have "take (length text - 1 - t - s + 1) ys = rev (dropWhile P (rev ys))"
    unfolding rev_dropWhile_rev t_ys [symmetric] by (simp only: cnt)
  finally show ?thesis by (simp add: spec_trim_def ys_def P_def)
qed

section \<open>The loop over the segments\<close>

declare segments_loop.simps [simp del]

lemma segments_loop_eq:
  "segments_loop eng ctx i n str w =
     (str @ concat (map (\<lambda>k. present_text (whisper_full_get_segment_text eng ctx k (engine_state w))) [i..n - 1]),
      w\<lparr>trace := trace w @ map (Call_whisper_full_get_segment_text ctx) [i..n - 1]\<rparr>)"
proof (induction eng ctx i n str w rule: segments_loop.induct)
  case (1 eng ctx i n str w)
  show ?case
  proof (cases "i < n")
    case True
    then have up: "[i..n - 1] = i # [i + 1..n - 1]" by (simp add: upto_rec1)
    define segText where "segText = whisper_full_get_segment_text eng ctx i (engine_state w)"
    define w' where "w' = emit (Call_whisper_full_get_segment_text ctx i) w"
    have call: "(segText, w') = call_whisper_full_get_segment_text eng ctx i w"
      by (simp add: call_whisper_full_get_segment_text_def segText_def w'_def)
    have "segments_loop eng ctx i n str w =
            segments_loop eng ctx (i + 1) n (case segText of Some s \<Rightarrow> str @ s | None \<Rightarrow> str) w'"
      using True by (subst segments_loop.simps) (simp add: call [symmetric])
    also note "1.IH" [OF True refl call]
    finally show ?thesis
      by (simp add: up w'_def segText_def emit_def present_text_def split: option.splits)
  next
    case False
    then show ?thesis
      by (subst segments_loop.simps) simp
  qed
qed

section \<open>The entry points, call by call\<close>

text \<open>The definitions of the calls that leave the bridge.\<close>

lemmas bridge_calls =
  emit_def env_GetStringUTFChars_def env_ReleaseStringUTFChars_def env_GetArrayLength_def
  env_GetFloatArrayElements_def env_ReleaseFloatArrayElements_def env_NewStringUTF_def
  logi_def loge_def call_whisper_context_default_params_def
  call_whisper_init_from_file_with_params_def call_whisper_full_default_params_def
  call_whisper_full_def call_whisper_full_n_segments_def call_whisper_free_def

text \<open>What each entry point returns and what it adds to the world, path by path.\<close>

lemma initContext_eq:
  assumes "whisper_init_from_file_with_params eng modelPath (whisper_context_default_params eng)
             (engine_state w) = (ctx, es)"
  shows "initContext eng modelPath w =
           (if ctx = nullptr then 0 else ctx,
            w\<lparr>engine_state := es,
              trace := trace w @
                [GetStringUTFChars modelPath,
                 LOGI ''Loading model from: %s'' [ArgStr modelPath],
                 Call_whisper_context_default_params,
                 Call_whisper_init_from_file_with_params modelPath
                   (whisper_context_default_params eng),
                 ReleaseStringUTFChars modelPath modelPath,
                 if ctx = nullptr then LOGE ''Failed to load model'' []
                 else LOGI ''Model loaded successfully'' []]\<rparr>)"
  using assms
  by (simp add: Java_it_shek_dictator_app_WhisperLib_initContext_def bridge_calls)

lemma transcribe_null: "transcribe eng 0 audioData w = ('''', w\<lparr>trace := trace w @ [NewStringUTF '''']\<rparr>)"
  by (simp add: Java_it_shek_dictator_app_WhisperLib_transcribe_def nullptr_def bridge_calls)

lemma transcribe_failure_eq:
  assumes "contextPtr \<noteq> 0"
    and "whisper_full eng contextPtr
           (set_params (whisper_full_default_params eng WHISPER_SAMPLING_GREEDY))
           audioData (int (length audioData)) (engine_state w) = (status, es)"
    and "status \<noteq> 0"
  shows "transcribe eng contextPtr audioData w =
           ('''',
            w\<lparr>engine_state := es,
              trace := trace w @
                [GetArrayLength audioData,
                 GetFloatArrayElements audioData,
                 LOGI ''Transcribing %d samples (%.1fs)''
                   [ArgInt (int (length audioData)), ArgQuot (int (length audioData)) 16000],
                 Call_whisper_full_default_params WHISPER_SAMPLING_GREEDY,
                 Call_whisper_full contextPtr
                   (set_params (whisper_full_default_params eng WHISPER_SAMPLING_GREEDY))
                   audioData (int (length audioData)),
                 ReleaseFloatArrayElements audioData audioData 0,
                 LOGE ''Transcription failed with code %d'' [ArgInt status],
                 NewStringUTF '''']\<rparr>)"
  using assms
  by (simp add: Java_it_shek_dictator_app_WhisperLib_transcribe_def nullptr_def bridge_calls)

lemma transcribe_success_eq:
  assumes "contextPtr \<noteq> 0"
    and "whisper_full eng contextPtr
           (set_params (whisper_full_default_params eng WHISPER_SAMPLING_GREEDY))
           audioData (int (length audioData)) (engine_state w) = (0, es)"
  shows "transcribe eng contextPtr audioData w =
           (trim (concat (map present_text (reported_segments eng contextPtr es))),
            w\<lparr>engine_state := es,
              trace := trace w @
                [GetArrayLength audioData,
                 GetFloatArrayElements audioData,
                 LOGI ''Transcribing %d samples (%.1fs)''
                   [ArgInt (int (length audioData)), ArgQuot (int (length audioData)) 16000],
                 Call_whisper_full_default_params WHISPER_SAMPLING_GREEDY,
                 Call_whisper_full contextPtr
                   (set_params (whisper_full_default_params eng WHISPER_SAMPLING_GREEDY))
                   audioData (int (length audioData)),
                 ReleaseFloatArrayElements audioData audioData 0,
                 Call_whisper_full_n_segments contextPtr] @
                map (Call_whisper_full_get_segment_text contextPtr)
                  [0..whisper_full_n_segments eng contextPtr es - 1] @
                [LOGI ''Transcription result: %s''
                   [ArgStr (trim (concat (map present_text (reported_segments eng contextPtr es))))],
                 NewStringUTF
                   (trim (concat (map present_text (reported_segments eng contextPtr es))))]\<rparr>)"
  using assms
  by (simp add: Java_it_shek_dictator_app_WhisperLib_transcribe_def nullptr_def bridge_calls
      segments_loop_eq reported_segments_def comp_def Let_def)

lemma freeContext_eq:
  "freeContext eng contextPtr w =
     (if contextPtr = 0 then w
      else w\<lparr>engine_state := whisper_free eng contextPtr (engine_state w),
             trace := trace w @ [Call_whisper_free contextPtr, LOGI ''Context freed'' []]\<rparr>)"
  by (simp add: Java_it_shek_dictator_app_WhisperLib_freeContext_def nullptr_def bridge_calls)

text \<open>The calls of the loop neither hold the elements of the array nor run inference.\<close>

lemma uses_elements_segment_calls:
  "filter uses_elements (map (Call_whisper_full_get_segment_text ctx) ks) = []"
  by (induction ks) simp_all

lemma whisper_full_calls_segment_calls:
  "whisper_full_calls (map (Call_whisper_full_get_segment_text ctx) ks @ evs) =
     whisper_full_calls evs"
  by (induction ks) simp_all

text \<open>
  On a handle that is not zero, every call starts with the same six events, whatever the
  engine answers; none of the events after them holds the elements of the array or runs
  inference.
\<close>

lemma transcribe_calls_engine:
  assumes "contextPtr \<noteq> 0"
  shows "\<exists>rest. new_events w (snd (transcribe eng contextPtr audioData w)) =
            [GetArrayLength audioData,
             GetFloatArrayElements audioData,
             LOGI ''Transcribing %d samples (%.1fs)''
               [ArgInt (int (length audioData)), ArgQuot (int (length audioData)) 16000],
             Call_whisper_full_default_params WHISPER_SAMPLING_GREEDY,
             Call_whisper_full contextPtr
               (set_params (whisper_full_default_params eng WHISPER_SAMPLING_GREEDY))
               audioData (int (length audioData)),
             ReleaseFloatArrayElements audioData audioData 0] @ rest
          \<and> filter uses_elements rest = [] \<and> whisper_full_calls rest = []"
proof -
  obtain status es where full:
    "whisper_full eng contextPtr
       (set_params (whisper_full_default_params eng WHISPER_SAMPLING_GREEDY))
       audioData (int (length audioData)) (engine_state w) = (status, es)"
    by (cases "whisper_full eng contextPtr
       (set_params (whisper_full_default_params eng WHISPER_SAMPLING_GREEDY))
       audioData (int (length audioData)) (engine_state w)")
  show ?thesis
  proof (cases "status = 0")
    case True
    with full show ?thesis
      by (simp add: transcribe_success_eq [OF assms] new_events_def uses_elements_segment_calls whisper_full_calls_segment_calls)
  next
    case False
    with full show ?thesis
      by (simp add: transcribe_failure_eq [OF assms] new_events_def)
  qed
qed


text \<open>The definitions of the small engine.\<close>

lemmas demo_defs =
  demo_engine_def demo_world_def demo_default_params_def nullptr_def

section \<open>The claims\<close>

subsection \<open>transcribe on the zero handle\<close>

text \<open>
  Claim C1. On the zero handle, \<open>transcribe\<close> returns the empty string at once, for
  every audio array (the empty one too): the only call it makes is \<open>NewStringUTF ""\<close>,
  so no engine function is invoked, and the state of the engine is left as it was.
\<close>

theorem transcribe_zero_handle:
  "transcribe eng 0 audioData w = ('''', w\<lparr>trace := trace w @ [NewStringUTF '''']\<rparr>)
   \<and> filter is_engine_call (new_events w (snd (transcribe eng 0 audioData w))) = []
   \<and> engine_state (snd (transcribe eng 0 audioData w)) = engine_state w"
  by (simp add: transcribe_null new_events_def)

subsection \<open>The transcript of a successful call\<close>

text \<open>
  Claim C2. When the handle is not zero and the inference entry point returns the
  status 0, \<open>transcribe\<close> returns the specification's transcript of the segments the
  engine reports: the texts that are present, concatenated in order with no separator,
  trimmed of ASCII whitespace at the two outer edges only. If the concatenation holds
  nothing but whitespace, the result is the empty string.
\<close>

theorem transcribe_success_transcript:
  assumes "contextPtr \<noteq> 0"
    and "whisper_full eng contextPtr
           (set_params (whisper_full_default_params eng WHISPER_SAMPLING_GREEDY))
           audioData (int (length audioData)) (engine_state w) = (0, es)"
  shows "fst (transcribe eng contextPtr audioData w) =
           spec_transcript (reported_segments eng contextPtr es)
         \<and> ((\<forall>c \<in> set (concat (map present_text (reported_segments eng contextPtr es))).
                is_ascii_whitespace c)
              \<longrightarrow> fst (transcribe eng contextPtr audioData w) = '''')"
proof -
  have res: "fst (transcribe eng contextPtr audioData w) =
               spec_transcript (reported_segments eng contextPtr es)"
    by (simp add: transcribe_success_eq [OF assms] trim_eq_spec_trim spec_transcript_def)
  have "spec_trim s = ''''" if "\<forall>c \<in> set s. is_ascii_whitespace c" for s
    using that by (auto simp: spec_trim_def dest: set_dropWhileD)
  with res show ?thesis
    by (simp add: spec_transcript_def)
qed

text \<open>
  The segments \<open>" foo"\<close> and \<open>"bar "\<close> give \<open>"foobar"\<close>, also with a
  segment of absent text between them.
\<close>

theorem transcribe_success_transcript_witness:
  "(4096 :: jlong) \<noteq> 0
   \<and> whisper_full demo_engine 4096
        (set_params (whisper_full_default_params demo_engine WHISPER_SAMPLING_GREEDY))
        [0] (int (length [0 :: jfloat])) (engine_state demo_world)
      = (0, [Some '' foo'', Some ''bar ''])
   \<and> reported_segments demo_engine 4096 [Some '' foo'', Some ''bar '']
      = [Some '' foo'', Some ''bar '']
   \<and> fst (transcribe demo_engine 4096 [0] demo_world) = ''foobar''
   \<and> whisper_full demo_engine 4096
        (set_params (whisper_full_default_params demo_engine WHISPER_SAMPLING_GREEDY))
        [5, 6] (int (length [5, 6 :: jfloat])) (engine_state demo_world)
      = (0, [Some '' foo'', None, Some ''bar ''])
   \<and> reported_segments demo_engine 4096 [Some '' foo'', None, Some ''bar '']
      = [Some '' foo'', None, Some ''bar '']
   \<and> fst (transcribe demo_engine 4096 [5, 6] demo_world) = ''foobar''"
  using transcribe_success_transcript
    [of 4096 demo_engine "[0]" demo_world "[Some '' foo'', Some ''bar '']"]
    transcribe_success_transcript
    [of 4096 demo_engine "[5, 6]" demo_world "[Some '' foo'', None, Some ''bar '']"]
  by (simp add: demo_defs reported_segments_def spec_transcript_def spec_trim_def
      present_text_def is_ascii_whitespace_def upto.simps)

subsection \<open>An inference that fails\<close>

text \<open>
  Claim C3. When the handle is not zero and the inference entry point returns a status
  other than 0, \<open>transcribe\<close> returns the empty string, never a part of a transcript:
  after the release of the array it makes two calls only, the error log line that carries
  the status and \<open>NewStringUTF ""\<close>. The accessors of the result are not called, and
  the status goes nowhere but into the log.
\<close>

theorem transcribe_engine_failure:
  assumes "contextPtr \<noteq> 0"
    and "whisper_full eng contextPtr
           (set_params (whisper_full_default_params eng WHISPER_SAMPLING_GREEDY))
           audioData (int (length audioData)) (engine_state w) = (status, es)"
    and "status \<noteq> 0"
  shows "fst (transcribe eng contextPtr audioData w) = ''''
         \<and> new_events w (snd (transcribe eng contextPtr audioData w)) =
             [GetArrayLength audioData,
              GetFloatArrayElements audioData,
              LOGI ''Transcribing %d samples (%.1fs)''
                [ArgInt (int (length audioData)), ArgQuot (int (length audioData)) 16000],
              Call_whisper_full_default_params WHISPER_SAMPLING_GREEDY,
              Call_whisper_full contextPtr
                (set_params (whisper_full_default_params eng WHISPER_SAMPLING_GREEDY))
                audioData (int (length audioData)),
              ReleaseFloatArrayElements audioData audioData 0,
              LOGE ''Transcription failed with code %d'' [ArgInt status],
              NewStringUTF '''']"
  by (simp add: transcribe_failure_eq [OF assms] new_events_def)

text \<open>The small engine fails with the code 7 on the empty buffer.\<close>

theorem transcribe_engine_failure_witness:
  "(4096 :: jlong) \<noteq> 0
   \<and> whisper_full demo_engine 4096
        (set_params (whisper_full_default_params demo_engine WHISPER_SAMPLING_GREEDY))
        [] (int (length ([] :: jfloat list))) (engine_state demo_world) = (7, [])
   \<and> (7 :: int) \<noteq> 0
   \<and> fst (transcribe demo_engine 4096 [] demo_world) = ''''
   \<and> filter is_log (new_events demo_world (snd (transcribe demo_engine 4096 [] demo_world))) =
       [LOGI ''Transcribing %d samples (%.1fs)'' [ArgInt 0, ArgQuot 0 16000],
        LOGE ''Transcription failed with code %d'' [ArgInt 7]]"
  using transcribe_engine_failure [of 4096 demo_engine "[]" demo_world 7 "[]"]
  by (simp add: demo_defs)

subsection \<open>The handle that initContext returns\<close>

text \<open>
  Claim C4. \<open>initContext\<close> returns the address of the context that the engine's
  constructor returned: it is not zero exactly when the constructor succeeded, and it is
  the zero sentinel exactly when the constructor returned the null context. The result is
  a plain \<open>jlong\<close> on both paths; the source raises nothing and calls no throwing
  function of the JNI environment, so the failure is told by the value alone.
\<close>

theorem initContext_handle:
  assumes "whisper_init_from_file_with_params eng modelPath (whisper_context_default_params eng)
             (engine_state w) = (ctx, es)"
  shows "fst (initContext eng modelPath w) = ctx
         \<and> (fst (initContext eng modelPath w) \<noteq> 0 \<longleftrightarrow> ctx \<noteq> nullptr)
         \<and> (fst (initContext eng modelPath w) = 0 \<longleftrightarrow> ctx = nullptr)"
  by (simp add: initContext_eq [OF assms] nullptr_def)

text \<open>The small engine loads one model and fails on any other path.\<close>

theorem initContext_handle_witness:
  "whisper_init_from_file_with_params demo_engine ''ggml-base.en.bin''
     (whisper_context_default_params demo_engine) (engine_state demo_world) = (4096, [])
   \<and> fst (initContext demo_engine ''ggml-base.en.bin'' demo_world) = 4096
   \<and> whisper_init_from_file_with_params demo_engine ''missing.bin''
     (whisper_context_default_params demo_engine) (engine_state demo_world) = (nullptr, [])
   \<and> fst (initContext demo_engine ''missing.bin'' demo_world) = 0"
  using initContext_handle [of demo_engine "''ggml-base.en.bin''" demo_world 4096 "[]"]
    initContext_handle [of demo_engine "''missing.bin''" demo_world nullptr "[]"]
  by (simp add: demo_defs)

subsection \<open>The parameters of the inference\<close>

text \<open>
  Claim C5. On a handle that is not zero, the inference entry point is called exactly
  once, and the parameter set it is given is the engine's default set for the greedy
  strategy with the nine pinned fields: the four print flags false, translate false,
  language \<open>"en"\<close>, 4 threads, \<open>no_context\<close> true and \<open>single_segment\<close> false.
  The bridge does not write the field \<open>strategy\<close>: it is the one of the defaults asked
  for \<open>WHISPER_SAMPLING_GREEDY\<close>, hence greedy for an engine whose defaults carry the
  strategy they were asked for.
\<close>

theorem transcribe_pinned_params:
  assumes "contextPtr \<noteq> 0"
  shows "\<exists>params.
           whisper_full_calls (new_events w (snd (transcribe eng contextPtr audioData w))) =
             [(contextPtr, params, audioData, int (length audioData))]
           \<and> params = (whisper_full_default_params eng WHISPER_SAMPLING_GREEDY)
                \<lparr>print_progress := False, print_special := False, print_timestamps := False,
                 print_realtime := False, translate := False, language := ''en'',
                 n_threads := 4, no_context := True, single_segment := False\<rparr>
           \<and> print_progress params = False \<and> print_special params = False
           \<and> print_timestamps params = False \<and> print_realtime params = False
           \<and> translate params = False \<and> language params = ''en'' \<and> n_threads params = 4
           \<and> no_context params = True \<and> single_segment params = False
           \<and> strategy params = strategy (whisper_full_default_params eng WHISPER_SAMPLING_GREEDY)
           \<and> ((\<forall>s. strategy (whisper_full_default_params eng s) = s)
                \<longrightarrow> strategy params = WHISPER_SAMPLING_GREEDY)"
proof -
  from transcribe_calls_engine [OF assms, of w eng audioData]
  have "whisper_full_calls (new_events w (snd (transcribe eng contextPtr audioData w))) =
          [(contextPtr, set_params (whisper_full_default_params eng WHISPER_SAMPLING_GREEDY),
            audioData, int (length audioData))]"
    by auto
  then show ?thesis
    by (simp add: set_params_def)
qed

text \<open>The defaults of the small engine differ from the pinned values in every field.\<close>

theorem transcribe_pinned_params_witness:
  "(4096 :: jlong) \<noteq> 0
   \<and> (\<forall>s. strategy (whisper_full_default_params demo_engine s) = s)
   \<and> whisper_full_calls (new_events demo_world (snd (transcribe demo_engine 4096 [0] demo_world))) =
       [(4096,
         \<lparr>strategy = WHISPER_SAMPLING_GREEDY, n_threads = 4, no_context = True,
          single_segment = False, translate = False, print_special = False,
          print_progress = False, print_realtime = False, print_timestamps = False,
          language = ''en'', other_fields = ()\<rparr>,
         [0], 1)]"
  using transcribe_pinned_params
    [where contextPtr = 4096 and eng = demo_engine and audioData = "[0]" and w = demo_world]
  by (auto simp: demo_defs)

subsection \<open>freeContext\<close>

text \<open>
  Claim C6. \<open>freeContext\<close> on the zero handle leaves the world as it is: the free
  routine of the engine is not called and nothing is logged. On any other handle it calls
  the free routine once, on that handle, and then logs the completion.
\<close>

theorem freeContext_zero_or_once:
  "freeContext eng 0 w = w
   \<and> (contextPtr \<noteq> 0 \<longrightarrow>
        freeContext eng contextPtr w =
          w\<lparr>engine_state := whisper_free eng contextPtr (engine_state w),
            trace := trace w @ [Call_whisper_free contextPtr, LOGI ''Context freed'' []]\<rparr>)"
  by (simp add: freeContext_eq)

theorem freeContext_zero_or_once_witness:
  "(4096 :: jlong) \<noteq> 0
   \<and> freeContext demo_engine 0 demo_world = demo_world
   \<and> freeContext demo_engine 4096 (demo_world\<lparr>engine_state := [Some ''bar '']\<rparr>) =
       \<lparr>engine_state = [], trace = [Call_whisper_free 4096, LOGI ''Context freed'' []]\<rparr>"
  using freeContext_zero_or_once
    [where contextPtr = 4096 and eng = demo_engine and w = demo_world]
    freeContext_zero_or_once
    [where contextPtr = 4096 and eng = demo_engine
       and w = "demo_world\<lparr>engine_state := [Some ''bar '']\<rparr>"]
  by (simp add: demo_defs)

subsection \<open>The release of the audio array\<close>

text \<open>
  Claim C7. On a handle that is not zero, the events that hold the native elements of the
  audio array are three, in this order, whatever status the inference returns: the
  elements are acquired once, the inference entry point is called on them, and they are
  released once, after the inference. Nothing after the release holds them.
\<close>

theorem transcribe_releases_array:
  assumes "contextPtr \<noteq> 0"
  shows "filter uses_elements (new_events w (snd (transcribe eng contextPtr audioData w))) =
           [GetFloatArrayElements audioData,
            Call_whisper_full contextPtr
              (set_params (whisper_full_default_params eng WHISPER_SAMPLING_GREEDY))
              audioData (int (length audioData)),
            ReleaseFloatArrayElements audioData audioData 0]"
  using transcribe_calls_engine [OF assms, of w eng audioData] by auto

text \<open>The small engine fails on the empty buffer and succeeds on a buffer of two samples.\<close>

theorem transcribe_releases_array_witness:
  "(4096 :: jlong) \<noteq> 0
   \<and> fst (whisper_full demo_engine 4096
        (set_params (whisper_full_default_params demo_engine WHISPER_SAMPLING_GREEDY))
        [] 0 (engine_state demo_world)) \<noteq> 0
   \<and> length (filter uses_elements
        (new_events demo_world (snd (transcribe demo_engine 4096 [] demo_world)))) = 3
   \<and> last (filter uses_elements
        (new_events demo_world (snd (transcribe demo_engine 4096 [] demo_world)))) =
       ReleaseFloatArrayElements [] [] 0
   \<and> fst (whisper_full demo_engine 4096
        (set_params (whisper_full_default_params demo_engine WHISPER_SAMPLING_GREEDY))
        [5, 6] 2 (engine_state demo_world)) = 0
   \<and> length (filter uses_elements
        (new_events demo_world (snd (transcribe demo_engine 4096 [5, 6] demo_world)))) = 3
   \<and> last (filter uses_elements
        (new_events demo_world (snd (transcribe demo_engine 4096 [5, 6] demo_world)))) =
       ReleaseFloatArrayElements [5, 6] [5, 6] 0"
  using transcribe_releases_array
    [where contextPtr = 4096 and eng = demo_engine and audioData = "[]" and w = demo_world]
    transcribe_releases_array
    [where contextPtr = 4096 and eng = demo_engine and audioData = "[5, 6]" and w = demo_world]
  by (simp add: demo_defs)

subsection \<open>The release of the model path\<close>

text \<open>
  Claim C8. Every call of \<open>initContext\<close> makes the same five calls and then one log
  line that depends on the outcome: the native copy of the path is released exactly once,
  after the constructor has returned and before the test of its result.
\<close>

theorem initContext_releases_path:
  "new_events w (snd (initContext eng modelPath w)) =
     [GetStringUTFChars modelPath,
      LOGI ''Loading model from: %s'' [ArgStr modelPath],
      Call_whisper_context_default_params,
      Call_whisper_init_from_file_with_params modelPath (whisper_context_default_params eng),
      ReleaseStringUTFChars modelPath modelPath,
      if fst (whisper_init_from_file_with_params eng modelPath
                (whisper_context_default_params eng) (engine_state w)) = nullptr
      then LOGE ''Failed to load model'' []
      else LOGI ''Model loaded successfully'' []]
   \<and> filter is_ReleaseStringUTFChars (new_events w (snd (initContext eng modelPath w))) =
       [ReleaseStringUTFChars modelPath modelPath]"
proof -
  obtain ctx es where
    "whisper_init_from_file_with_params eng modelPath (whisper_context_default_params eng)
       (engine_state w) = (ctx, es)"
    by (cases "whisper_init_from_file_with_params eng modelPath
       (whisper_context_default_params eng) (engine_state w)")
  then show ?thesis
    by (simp add: initContext_eq new_events_def)
qed

subsection \<open>The sample count\<close>

text \<open>
  Claim C9. On a handle that is not zero, the inference entry point is given the whole
  audio array and, as its sample count, the length of that array: nothing is cut off,
  padded or tested against a minimum, and the empty array is passed with the count 0.
\<close>

theorem transcribe_sample_count:
  assumes "contextPtr \<noteq> 0"
  shows "map (\<lambda>(ctx, params, samples, n). (samples, n))
           (whisper_full_calls (new_events w (snd (transcribe eng contextPtr audioData w)))) =
         [(audioData, int (length audioData))]"
  using transcribe_calls_engine [OF assms, of w eng audioData] by auto

theorem transcribe_sample_count_witness:
  "(4096 :: jlong) \<noteq> 0
   \<and> map (\<lambda>(ctx, params, samples, n). (samples, n))
       (whisper_full_calls (new_events demo_world (snd (transcribe demo_engine 4096 [] demo_world))))
     = [([], 0)]
   \<and> map (\<lambda>(ctx, params, samples, n). (samples, n))
       (whisper_full_calls
          (new_events demo_world (snd (transcribe demo_engine 4096 [5, 6, 7] demo_world))))
     = [([5, 6, 7], 3)]"
  using transcribe_sample_count
    [where contextPtr = 4096 and eng = demo_engine and audioData = "[]" and w = demo_world]
    transcribe_sample_count
    [where contextPtr = 4096 and eng = demo_engine and audioData = "[5, 6, 7]" and w = demo_world]
  by simp

subsection \<open>Two calls with the same handle and the same samples\<close>




end
